theory Spec2Isabelle
  imports Main
begin

section \<open>Text and character classes\<close>

text \<open>
  A Python \<open>str\<close> is a sequence of Unicode code points, so a text is a list of code
  points (natural numbers).  The full-width colon of the pattern is the single code
  point U+FF1A.
\<close>

type_synonym uchar = nat
type_synonym str = "uchar list"

definition ascii :: "string \<Rightarrow> str" where
  "ascii = map of_char"

definition LF :: uchar where "LF = 10"
definition CR :: uchar where "CR = 13"
definition chr_Q :: uchar where "chr_Q = 81"
definition chr_A :: uchar where "chr_A = 65"
definition colon_half :: uchar where "colon_half = 58"
definition colon_full :: uchar where "colon_full = 0xFF1A"

text \<open>
  \<open>str.isspace\<close>, \<open>str.strip()\<close> and the pattern class \<open>\s\<close> of a \<open>str\<close> pattern all
  use the same predicate of the interpreter: the code points below.
\<close>

definition space_chars :: "uchar list" where
  "space_chars =
    [0x09, 0x0A, 0x0B, 0x0C, 0x0D, 0x1C, 0x1D, 0x1E, 0x1F, 0x20, 0x85, 0xA0, 0x1680,
     0x2000, 0x2001, 0x2002, 0x2003, 0x2004, 0x2005, 0x2006, 0x2007, 0x2008, 0x2009,
     0x200A, 0x2028, 0x2029, 0x202F, 0x205F, 0x3000]"

definition is_space :: "uchar \<Rightarrow> bool" where
  "is_space c = (c \<in> set space_chars)"

text \<open>
  The class \<open>\d\<close> of a \<open>str\<close> pattern is the Unicode category Nd, and \<open>int()\<close> reads
  every such digit by its decimal value.  The category consists of blocks of ten
  consecutive code points, the digits 0 to 9 in order; the list holds the first code
  point of every block (Unicode 14).
\<close>

definition decimal_blocks :: "uchar list" where
  "decimal_blocks =
    [0x30, 0x660, 0x6F0, 0x7C0, 0x966, 0x9E6, 0xA66, 0xAE6, 0xB66, 0xBE6, 0xC66,
     0xCE6, 0xD66, 0xDE6, 0xE50, 0xED0, 0xF20, 0x1040, 0x1090, 0x17E0, 0x1810,
     0x1946, 0x19D0, 0x1A80, 0x1A90, 0x1B50, 0x1BB0, 0x1C40, 0x1C50, 0xA620, 0xA8D0,
     0xA900, 0xA9D0, 0xA9F0, 0xAA50, 0xABF0, 0xFF10, 0x104A0, 0x10D30, 0x11066,
     0x110F0, 0x11136, 0x111D0, 0x112F0, 0x11450, 0x114D0, 0x11650, 0x116C0, 0x11730,
     0x118E0, 0x11950, 0x11C50, 0x11D50, 0x11DA0, 0x16A60, 0x16AC0, 0x16B50, 0x1D7CE,
     0x1D7D8, 0x1D7E2, 0x1D7EC, 0x1D7F6, 0x1E140, 0x1E2F0, 0x1E950, 0x1FBF0]"

definition decimal_block :: "uchar \<Rightarrow> uchar option" where
  "decimal_block c = find (\<lambda>b. b \<le> c \<and> c < b + 10) decimal_blocks"

definition is_decimal :: "uchar \<Rightarrow> bool" where
  "is_decimal c = (decimal_block c \<noteq> None)"

definition decimal_value :: "uchar \<Rightarrow> nat" where
  "decimal_value c = (case decimal_block c of None \<Rightarrow> 0 | Some b \<Rightarrow> c - b)"

section \<open>The fragment of Python's \<open>re\<close> that the converter uses\<close>

text \<open>
  Every quantifier of the two patterns of \<open>convert_qa.py\<close> applies to a single-character
  item (\<open>\d+\<close>, \<open>\s*\<close>, \<open>.+?\<close>, \<open>\r?\<close>), so the quantifiers take a character class.
  \<open>Dot\<close> is \<open>.\<close> under \<open>re.DOTALL\<close>: it accepts every character.
\<close>

datatype cls = Lit uchar | OneOf "uchar list" | Digit | Space | Dot

fun cls_ok :: "cls \<Rightarrow> uchar \<Rightarrow> bool" where
  "cls_ok (Lit a) c = (c = a)"
| "cls_ok (OneOf as) c = (c \<in> set as)"
| "cls_ok Digit c = is_decimal c"
| "cls_ok Space c = is_space c"
| "cls_ok Dot c = True"

datatype regex =
    One cls
  | Star cls
  | Plus cls
  | LazyPlus cls
  | Opt cls
  | Seq regex regex
  | Alt regex regex
  | Group nat regex
  | Lookahead regex
  | EndZ

text \<open>
  The matcher of \<open>re\<close> backtracks: at every choice it tries the alternatives in a fixed
  order and takes the first that lets the rest of the pattern succeed.  \<open>matches r g s\<close>
  lists, in that order, every way \<open>r\<close> can match at the start of \<open>s\<close>: the capture groups
  set so far and the text that remains.  A greedy quantifier offers the longest
  repetition first, a lazy one the shortest.
\<close>

fun greedy :: "(uchar \<Rightarrow> bool) \<Rightarrow> str \<Rightarrow> str list" where
  "greedy p [] = [[]]"
| "greedy p (x # xs) = (if p x then greedy p xs else []) @ [x # xs]"

fun lazy :: "(uchar \<Rightarrow> bool) \<Rightarrow> str \<Rightarrow> str list" where
  "lazy p [] = [[]]"
| "lazy p (x # xs) = (x # xs) # (if p x then lazy p xs else [])"

lemma greedy_length: "t \<in> set (greedy p s) \<Longrightarrow> length t \<le> length s"
  by (induction s) (auto split: if_splits)

lemma lazy_length: "t \<in> set (lazy p s) \<Longrightarrow> length t \<le> length s"
  by (induction s) (auto split: if_splits)

type_synonym caps = "(nat \<times> str) list"

fun matches :: "regex \<Rightarrow> caps \<Rightarrow> str \<Rightarrow> (caps \<times> str) list" where
  "matches (One c) g s =
     (case s of [] \<Rightarrow> [] | x # xs \<Rightarrow> if cls_ok c x then [(g, xs)] else [])"
| "matches (Star c) g s = map (Pair g) (greedy (cls_ok c) s)"
| "matches (Plus c) g s =
     (case s of [] \<Rightarrow> []
      | x # xs \<Rightarrow> if cls_ok c x then map (Pair g) (greedy (cls_ok c) xs) else [])"
| "matches (LazyPlus c) g s =
     (case s of [] \<Rightarrow> []
      | x # xs \<Rightarrow> if cls_ok c x then map (Pair g) (lazy (cls_ok c) xs) else [])"
| "matches (Opt c) g s =
     (case s of [] \<Rightarrow> [] | x # xs \<Rightarrow> if cls_ok c x then [(g, xs)] else []) @ [(g, s)]"
| "matches (Seq a b) g s =
     concat (map (\<lambda>(g', s'). matches b g' s') (matches a g s))"
| "matches (Alt a b) g s = matches a g s @ matches b g s"
| "matches (Group i r) g s =
     map (\<lambda>(g', s'). ((i, take (length s - length s') s) # g', s')) (matches r g s)"
| "matches (Lookahead r) g s =
     (case matches r g s of [] \<Rightarrow> [] | (g', _) # _ \<Rightarrow> [(g', s)])"
| "matches EndZ g s = (if s = [] then [(g, s)] else [])"

definition group :: "caps \<Rightarrow> nat \<Rightarrow> str" where
  "group g i = (case map_of g i of None \<Rightarrow> [] | Some t \<Rightarrow> t)"

text \<open>
  One attempt at one position.  After an empty match the scanner of \<open>re\<close> asks the next
  attempt at the same position to advance (\<open>must_advance\<close>): an empty result counts as
  a failure there and the matcher backtracks further.
\<close>

definition match_at :: "regex \<Rightarrow> bool \<Rightarrow> str \<Rightarrow> (caps \<times> str) option" where
  "match_at r adv s =
     (case filter (\<lambda>(g, s'). \<not> adv \<or> length s' < length s) (matches r [] s) of
        [] \<Rightarrow> None
      | m # _ \<Rightarrow> Some m)"

text \<open>
  \<open>search\<close> tries the positions from left to right; it returns the text skipped before
  the match, the groups and the text after the match.
\<close>

fun search :: "regex \<Rightarrow> bool \<Rightarrow> str \<Rightarrow> (str \<times> caps \<times> str) option" where
  "search r adv [] =
     (case match_at r adv [] of None \<Rightarrow> None | Some (g, s') \<Rightarrow> Some ([], g, s'))"
| "search r adv (x # xs) =
     (case match_at r adv (x # xs) of
        Some (g, s') \<Rightarrow> Some ([], g, s')
      | None \<Rightarrow>
         (case search r False xs of
            None \<Rightarrow> None
          | Some (pre, g, s') \<Rightarrow> Some (x # pre, g, s')))"

lemma matches_length: "(g', s') \<in> set (matches r g s) \<Longrightarrow> length s' \<le> length s"
proof (induction r arbitrary: g s g' s')
  case (Seq a b)
  then show ?case by (fastforce dest: order_trans)
next
  case (Lookahead r)
  then show ?case by (auto split: list.splits)
qed (auto split: list.splits if_splits dest: greedy_length lazy_length)

lemma match_at_length: "match_at r adv s = Some (g, s') \<Longrightarrow> length s' \<le> length s"
  unfolding match_at_def
  by (auto split: list.splits dest!: filter_eq_ConsD intro: matches_length [of g s' r "[]" s])

lemma match_at_advances: "match_at r True s = Some (g, s') \<Longrightarrow> length s' < length s"
  unfolding match_at_def
  by (auto split: list.splits dest!: filter_eq_ConsD)

lemma search_length:
  "search r adv s = Some (pre, g, s') \<Longrightarrow> length pre + length s' \<le> length s"
  by (induction s arbitrary: adv pre)
     (auto split: option.splits dest: match_at_length)

lemma search_advances: "search r True s = Some (pre, g, s') \<Longrightarrow> length s' < length s"
  by (cases s) (auto split: option.splits dest: match_at_advances search_length)

text \<open>
  \<open>re.findall\<close> for a pattern with three groups: the triple of the groups of every
  match, the matches found from left to right, each search starting where the last
  match ended.
\<close>

function findall :: "regex \<Rightarrow> bool \<Rightarrow> str \<Rightarrow> (str \<times> str \<times> str) list" where
  "findall r adv s =
     (case search r adv s of
        None \<Rightarrow> []
      | Some (pre, g, s') \<Rightarrow>
          (group g 1, group g 2, group g 3)
            # findall r (length pre + length s' = length s) s')"
  by pat_completeness auto
termination
proof (relation "measures [\<lambda>(r, adv, s). length s, \<lambda>(r, adv, s). if adv then 0 else 1]",
       goal_cases)
  case 1
  show ?case by simp
next
  case (2 r adv s x2 pre y g s')
  then have "search r adv s = Some (pre, g, s')" by simp
  from search_length [OF this] search_advances [of r s pre g s'] this
  show ?case by (cases adv) auto
qed

text \<open>
  \<open>re.sub(pattern, repl, s)\<close> with a constant replacement: the text between the
  matches is kept, every match is replaced.
\<close>

function re_sub :: "regex \<Rightarrow> str \<Rightarrow> bool \<Rightarrow> str \<Rightarrow> str" where
  "re_sub r repl adv s =
     (case search r adv s of
        None \<Rightarrow> s
      | Some (pre, g, s') \<Rightarrow>
          pre @ repl @ re_sub r repl (length pre + length s' = length s) s')"
  by pat_completeness auto
termination
proof (relation "measures [\<lambda>(r, repl, adv, s). length s, \<lambda>(r, repl, adv, s). if adv then 0 else 1]",
       goal_cases)
  case 1
  show ?case by simp
next
  case (2 r repl adv s x2 pre y g s')
  then have "search r adv s = Some (pre, g, s')" by simp
  from search_length [OF this] search_advances [of r s pre g s'] this
  show ?case by (cases adv) auto
qed

section \<open>The converter\<close>

text \<open>
  The pattern of \<open>convert_txt_to_json\<close>, compiled with \<open>re.DOTALL\<close>:
  \<^verbatim>\<open>Q(\d+)[C:]\s*(.+?)\r?\n\s*A\d+[C:]\s*(.+?)(?=\r?\n\r?\nQ\d+[C:]|\r?\n\r?\n\r?\n|\Z)\<close>
  where C stands for the full-width colon U+FF1A, cut into named pieces.
\<close>

definition colon :: regex where
  "colon = One (OneOf [colon_full, colon_half])"

definition newline :: regex where
  "newline = Seq (Opt (Lit CR)) (One (Lit LF))"

definition boundary :: regex where
  "boundary =
     Alt (Seq newline (Seq newline (Seq (One (Lit chr_Q)) (Seq (Plus Digit) colon))))
      (Alt (Seq newline (Seq newline newline))
        EndZ)"

definition answer_body :: regex where
  "answer_body = Seq (Star Space) (Seq (Group 3 (LazyPlus Dot)) (Lookahead boundary))"

definition answer_line :: regex where
  "answer_line =
     Seq newline (Seq (Star Space)
       (Seq (One (Lit chr_A)) (Seq (Plus Digit) (Seq colon answer_body))))"

definition question_body :: regex where
  "question_body = Seq (Star Space) (Seq (Group 2 (LazyPlus Dot)) answer_line)"

definition pattern :: regex where
  "pattern = Seq (One (Lit chr_Q)) (Seq (Group 1 (Plus Digit)) (Seq colon question_body))"

text \<open>The pattern of the clean-up of the answer, \<^verbatim>\<open>\r?\n\s*\<close>.\<close>

definition newline_run :: regex where
  "newline_run = Seq newline (Star Space)"

text \<open>\<open>str.strip()\<close> without argument removes the white space at both ends.\<close>

definition strip :: "str \<Rightarrow> str" where
  "strip s = rev (dropWhile is_space (rev (dropWhile is_space s)))"

text \<open>
  \<open>int(s)\<close> on a non-empty string of decimal digits is its value in base ten, an
  unbounded integer.  Every other argument is taken to raise \<open>ValueError\<close>; Python
  accepts a few more forms (a sign, surrounding white space, underscores), so the model
  raises at least where Python does.
\<close>

datatype error = ValueError

definition py_int :: "str \<Rightarrow> error + int" where
  "py_int s =
     (if s \<noteq> [] \<and> list_all is_decimal s
      then Inr (int (foldl (\<lambda>a c. 10 * a + decimal_value c) 0 s))
      else Inl ValueError)"

record qa =
  qa_id :: int
  question :: str
  answer :: str

text \<open>The body of the loop over the matches, for one match.\<close>

definition make_qa :: "str \<times> str \<times> str \<Rightarrow> error + qa" where
  "make_qa m =
     (case m of (m0, m1, m2) \<Rightarrow>
        (case py_int m0 of
           Inl e \<Rightarrow> Inl e
         | Inr n \<Rightarrow>
             Inr \<lparr>qa_id = n, question = strip m1,
                  answer = re_sub newline_run [] False (strip m2)\<rparr>))"

text \<open>The loop: the records are appended in the order of the matches.\<close>

fun collect :: "(str \<times> str \<times> str) list \<Rightarrow> qa list \<Rightarrow> error + qa list" where
  "collect [] qa_list = Inr qa_list"
| "collect (m # ms) qa_list =
     (case make_qa m of
        Inl e \<Rightarrow> Inl e
      | Inr q \<Rightarrow> collect ms (qa_list @ [q]))"

text \<open>
  From the content of the input file to the sorted list: \<open>list.sort\<close> with a key is
  stable, as \<open>sort_key\<close> is.
\<close>

definition extract_records :: "str \<Rightarrow> error + qa list" where
  "extract_records content =
     (case collect (findall pattern False content) [] of
        Inl e \<Rightarrow> Inl e
      | Inr qa_list \<Rightarrow> Inr (sort_key qa_id qa_list))"

section \<open>Evaluation\<close>

lemmas evaluation =
  ascii_def LF_def CR_def chr_Q_def chr_A_def colon_half_def colon_full_def
  is_decimal_def decimal_block_def decimal_blocks_def decimal_value_def
  is_space_def space_chars_def
  colon_def newline_def boundary_def answer_body_def answer_line_def question_body_def
  pattern_def newline_run_def
  match_at_def group_def strip_def py_int_def make_qa_def extract_records_def

section \<open>The example of the specification\<close>

definition example_document :: str where
  "example_document =
     ascii ''Q2'' @ [colon_full] @ ascii ''What is X?'' @ [LF]
     @ ascii ''A2'' @ [colon_full] @ ascii ''X is'' @ [LF]
     @ ascii ''a thing.'' @ [LF]
     @ [LF]
     @ ascii ''Q1'' @ [colon_full] @ ascii ''What is Y?'' @ [LF]
     @ ascii ''A1'' @ [colon_full] @ ascii ''Y is simple.''"

text \<open>
  Claim C1.  On the example document of the specification (full-width colons, a
  two-line answer in the first entry, the entry Q2 before the entry Q1) the converter
  yields exactly two records, in this order: id 1 with question \<open>What is Y?\<close> and answer
  \<open>Y is simple.\<close>, then id 2 with question \<open>What is X?\<close> and answer \<open>X isa thing.\<close>:
  the two lines of the answer are joined without a space.
\<close>

theorem example_document_records:
  "extract_records example_document =
     Inr [\<lparr>qa_id = 1, question = ascii ''What is Y?'', answer = ascii ''Y is simple.''\<rparr>,
          \<lparr>qa_id = 2, question = ascii ''What is X?'', answer = ascii ''X isa thing.''\<rparr>]"
  by (simp add: example_document_def evaluation)

end
